theory Spec2Isabelle
  imports Complex_Main
begin

section \<open>StockMaster Pro: the store and the request handlers of app.py\<close>

text \<open>
  The application keeps two tables, Product and Sale, and serves each request by a
  handler that reads the form, changes rows through the ORM session and commits.
  The embedding follows app.py handler by handler:
  \<^item> a table is the list of its rows, a row a record with the columns of the class;
  \<^item> a handler takes the store and returns its response together with the store as
    persisted when the request ends (a session that is never committed is dropped);
  \<^item> every exception the handler can meet is a value of \<open>error\<close>, and the body
    of each \<open>try\<close> returns \<open>error + _\<close>, the \<open>except\<close> clause being the
    case distinction on it;
  \<^item> \<open>datetime.utcnow()\<close> is an argument \<open>now\<close>, a count of microseconds;
  \<^item> a flashed message is a constructor carrying the values the f-string prints.
  Columns of type Float are modelled by \<open>real\<close> and integers are unbounded, as
  Python's are: rounding of doubles and the 64-bit range of the stored integers are
  outside the model.
\<close>

subsection \<open>Rows and tables\<close>

record product =
  p_id :: int
  name :: string
  stock_quantity :: int
  buying_price :: real
  selling_price :: real

type_synonym datetime = int

record sale =
  s_id :: int
  product_id :: int
  quantity_sold :: int
  sale_date :: datetime
  profit_recorded :: real

record store =
  products :: "product list"
  sales :: "sale list"

datatype error = TypeError | ValueError | NotFound | IntegrityError | AttributeError

text \<open>The submitted form: \<open>request.form.get(k)\<close> is \<open>form k\<close>, \<open>None\<close> when absent.\<close>

type_synonym form = "string \<Rightarrow> string option"

subsection \<open>The builtins \<open>int\<close> and \<open>float\<close> on form values\<close>

text \<open>
  \<open>int(s)\<close> on a string strips surrounding whitespace, reads an optional sign and a
  run of decimal digits in which single underscores may separate digits, and raises
  ValueError otherwise. \<open>float(s)\<close> is modelled on plain decimal literals (digits with
  an optional fraction); exponents, \<open>inf\<close> and \<open>nan\<close> have no value in \<open>real\<close> and
  are left out, so the theorems below only ever assume that \<open>py_float\<close> succeeds.
  Only ASCII is covered.
\<close>

definition is_space :: "char \<Rightarrow> bool" where
  "is_space c = (let n = (of_char c :: nat) in (9 \<le> n \<and> n \<le> 13) \<or> (28 \<le> n \<and> n \<le> 32))"

definition strip :: "string \<Rightarrow> string" where
  "strip s = rev (dropWhile is_space (rev (dropWhile is_space s)))"

definition digit_of :: "char \<Rightarrow> nat option" where
  "digit_of c = (let n = (of_char c :: nat) in if 48 \<le> n \<and> n \<le> 57 then Some (n - 48) else None)"

fun int_digits :: "nat \<Rightarrow> string \<Rightarrow> nat option" where
  "int_digits acc [] = Some acc"
| "int_digits acc (c # cs) =
     (if c = CHR ''_'' then
        (case cs of [] \<Rightarrow> None
         | d # _ \<Rightarrow> (if digit_of d = None then None else int_digits acc cs))
      else (case digit_of c of None \<Rightarrow> None
            | Some v \<Rightarrow> int_digits (10 * acc + v) cs))"

definition int_literal :: "string \<Rightarrow> nat option" where
  "int_literal s =
     (case s of [] \<Rightarrow> None
      | c # cs \<Rightarrow> (case digit_of c of None \<Rightarrow> None | Some v \<Rightarrow> int_digits v cs))"

definition py_int :: "string \<Rightarrow> error + int" where
  "py_int s =
     (let t = strip s;
          r = (case t of [] \<Rightarrow> None
               | c # cs \<Rightarrow>
                   if c = CHR ''-'' then map_option (\<lambda>n. - int n) (int_literal cs)
                   else if c = CHR ''+'' then map_option int (int_literal cs)
                   else map_option int (int_literal t))
      in case r of None \<Rightarrow> Inl ValueError | Some i \<Rightarrow> Inr i)"

definition float_literal :: "string \<Rightarrow> real option" where
  "float_literal s =
     (let ip = takeWhile (\<lambda>c. c \<noteq> CHR ''.'') s;
          rest = dropWhile (\<lambda>c. c \<noteq> CHR ''.'') s
      in case rest of
           [] \<Rightarrow> map_option real (int_literal ip)
         | _ # fp \<Rightarrow>
             if ip = [] \<and> fp = [] then None
             else (case (if ip = [] then Some 0 else int_literal ip) of
                     None \<Rightarrow> None
                   | Some i \<Rightarrow>
                       (case (if fp = [] then Some 0 else int_literal fp) of
                          None \<Rightarrow> None
                        | Some f \<Rightarrow>
                            Some (real i
                                  + real f / 10 ^ length (filter (\<lambda>c. c \<noteq> CHR ''_'') fp)))))"

definition py_float :: "string \<Rightarrow> error + real" where
  "py_float s =
     (let t = strip s;
          r = (case t of [] \<Rightarrow> None
               | c # cs \<Rightarrow>
                   if c = CHR ''-'' then map_option uminus (float_literal cs)
                   else if c = CHR ''+'' then float_literal cs
                   else float_literal t)
      in case r of None \<Rightarrow> Inl ValueError | Some x \<Rightarrow> Inr x)"

text \<open>
  \<open>int(request.form.get(k))\<close>: an absent field is \<open>int(None)\<close>, a TypeError.
  \<open>int(request.form.get(k, 0))\<close>: an absent field is \<open>int(0)\<close>, which is 0; likewise
  \<open>float(request.form.get(k, 0))\<close> is 0.0.
\<close>

definition int_field :: "form \<Rightarrow> string \<Rightarrow> error + int" where
  "int_field f k = (case f k of None \<Rightarrow> Inl TypeError | Some s \<Rightarrow> py_int s)"

definition int_field_default0 :: "form \<Rightarrow> string \<Rightarrow> error + int" where
  "int_field_default0 f k = (case f k of None \<Rightarrow> Inr 0 | Some s \<Rightarrow> py_int s)"

definition float_field_default0 :: "form \<Rightarrow> string \<Rightarrow> error + real" where
  "float_field_default0 f k = (case f k of None \<Rightarrow> Inr 0 | Some s \<Rightarrow> py_float s)"

subsection \<open>Queries and the session\<close>

text \<open>\<open>Product.query.get(i)\<close>: the row with primary key \<open>i\<close>, or \<open>None\<close>.\<close>

definition query_get :: "store \<Rightarrow> int \<Rightarrow> product option" where
  "query_get st i = find (\<lambda>p. p_id p = i) (products st)"

text \<open>\<open>Product.query.get_or_404(i)\<close> raises NotFound where \<open>get\<close> returns \<open>None\<close>.\<close>

definition get_or_404 :: "store \<Rightarrow> int \<Rightarrow> error + product" where
  "get_or_404 st i = (case query_get st i of None \<Rightarrow> Inl NotFound | Some p \<Rightarrow> Inr p)"

text \<open>
  An integer primary key left out of an insert is given by the table: one more than
  the largest key in use, 1 in an empty table.
\<close>

definition next_id :: "int list \<Rightarrow> int" where
  "next_id ids = fold max ids 0 + 1"

text \<open>Writing back the one loaded row that the handler changed.\<close>

definition update_product :: "product \<Rightarrow> product list \<Rightarrow> product list" where
  "update_product p' ps = map (\<lambda>p. if p_id p = p_id p' then p' else p) ps"

subsection \<open>Messages and responses\<close>

datatype message =
    ProductAdded string
  | AddFailed error
  | ProductEdited string
  | EditFailed error
  | ProductDeleted string
  | DeleteFailed error
  | SaleRecorded int string real
  | StockInsufficient int
  | SaleFailed error

datatype category = success | danger

fun category_of :: "message \<Rightarrow> category" where
  "category_of (ProductAdded _) = success"
| "category_of (AddFailed _) = danger"
| "category_of (ProductEdited _) = success"
| "category_of (EditFailed _) = danger"
| "category_of (ProductDeleted _) = success"
| "category_of (DeleteFailed _) = danger"
| "category_of (SaleRecorded _ _ _) = success"
| "category_of (StockInsufficient _) = danger"
| "category_of (SaleFailed _) = danger"

datatype endpoint = Inventory | SalePage

text \<open>\<open>flash(m, category_of m)\<close> followed by \<open>redirect(url_for(e))\<close>.\<close>

datatype response = Redirect endpoint message

subsection \<open>Dashboard (app.py, lines 70 to 99)\<close>

record dashboard_view =
  weekly_revenue :: real
  weekly_profit :: real
  recent_sales :: "sale list"

definition timedelta_days :: "int \<Rightarrow> int" where
  "timedelta_days d = d * 86400000000"

text \<open>
  The loop of lines 85 to 88. \<open>Product.query.get\<close> returns \<open>None\<close> for a sale whose
  product is gone, and reading \<open>selling_price\<close> from it raises AttributeError.
\<close>

fun revenue_loop :: "store \<Rightarrow> real \<Rightarrow> sale list \<Rightarrow> error + real" where
  "revenue_loop st acc [] = Inr acc"
| "revenue_loop st acc (s # ss) =
     (case query_get st (product_id s) of
        None \<Rightarrow> Inl AttributeError
      | Some p \<Rightarrow> revenue_loop st (acc + selling_price p * of_int (quantity_sold s)) ss)"

text \<open>Lines 79 and 82: the sales dated \<open>week_ago\<close> or later.\<close>

definition weekly_sales :: "datetime \<Rightarrow> store \<Rightarrow> sale list" where
  "weekly_sales now st =
     (let week_ago = now - timedelta_days 7
      in filter (\<lambda>s. week_ago \<le> sale_date s) (sales st))"

text \<open>
  \<open>recent_sales\<close> orders by date, latest first, and keeps five; rows with equal dates
  stay in table order here, which SQL leaves open. No theorem below depends on it.
\<close>

definition dashboard :: "datetime \<Rightarrow> store \<Rightarrow> error + dashboard_view" where
  "dashboard now st =
     (case revenue_loop st 0 (weekly_sales now st) of
        Inl e \<Rightarrow> Inl e
      | Inr revenue \<Rightarrow>
          Inr \<lparr>weekly_revenue = revenue,
               weekly_profit = foldl (+) 0 (map profit_recorded (weekly_sales now st)),
               recent_sales = take 5 (sort_key (\<lambda>s. - sale_date s) (sales st))\<rparr>)"

subsection \<open>Inventory (lines 106 to 182)\<close>

definition inventory :: "store \<Rightarrow> product list" where
  "inventory st = products st"

text \<open>
  The column \<open>name\<close> is declared \<open>nullable=False\<close> (line 35): committing a product whose
  name is \<open>None\<close>, the value of an absent form field, raises IntegrityError.
\<close>

definition add_product_try :: "form \<Rightarrow> store \<Rightarrow> error + (message \<times> store)" where
  "add_product_try f st =
     (let nm = f ''name'' in
      case int_field_default0 f ''stock_quantity'' of Inl e \<Rightarrow> Inl e | Inr sq \<Rightarrow>
      case float_field_default0 f ''buying_price'' of Inl e \<Rightarrow> Inl e | Inr bp \<Rightarrow>
      case float_field_default0 f ''selling_price'' of Inl e \<Rightarrow> Inl e | Inr sp \<Rightarrow>
      case nm of
        None \<Rightarrow> Inl IntegrityError
      | Some n \<Rightarrow>
          Inr (ProductAdded n,
               st\<lparr>products := products st @
                    [\<lparr>p_id = next_id (map p_id (products st)), name = n,
                      stock_quantity = sq, buying_price = bp, selling_price = sp\<rparr>]\<rparr>))"

definition add_product :: "form \<Rightarrow> store \<Rightarrow> response \<times> store" where
  "add_product f st =
     (case add_product_try f st of
        Inl e \<Rightarrow> (Redirect Inventory (AddFailed e), st)
      | Inr (m, st') \<Rightarrow> (Redirect Inventory m, st'))"

definition edit_product_try :: "int \<Rightarrow> form \<Rightarrow> store \<Rightarrow> error + (message \<times> store)" where
  "edit_product_try i f st =
     (case get_or_404 st i of Inl e \<Rightarrow> Inl e | Inr p \<Rightarrow>
      let nm = f ''name'' in
      case int_field_default0 f ''stock_quantity'' of Inl e \<Rightarrow> Inl e | Inr sq \<Rightarrow>
      case float_field_default0 f ''buying_price'' of Inl e \<Rightarrow> Inl e | Inr bp \<Rightarrow>
      case float_field_default0 f ''selling_price'' of Inl e \<Rightarrow> Inl e | Inr sp \<Rightarrow>
      case nm of
        None \<Rightarrow> Inl IntegrityError
      | Some n \<Rightarrow>
          Inr (ProductEdited n,
               st\<lparr>products :=
                    update_product
                      (p\<lparr>name := n, stock_quantity := sq, buying_price := bp,
                         selling_price := sp\<rparr>)
                      (products st)\<rparr>))"

definition edit_product :: "int \<Rightarrow> form \<Rightarrow> store \<Rightarrow> response \<times> store" where
  "edit_product i f st =
     (case edit_product_try i f st of
        Inl e \<Rightarrow> (Redirect Inventory (EditFailed e), st)
      | Inr (m, st') \<Rightarrow> (Redirect Inventory m, st'))"

text \<open>
  The relationship \<open>Product.sales\<close> (line 41) declares no delete cascade, so deleting a
  product makes the session detach its sales by setting their \<open>product_id\<close> to NULL, and
  that column is \<open>nullable=False\<close> (line 57): the commit raises IntegrityError as soon
  as one sale refers to the product, and nothing is persisted.
\<close>

definition delete_product_try :: "int \<Rightarrow> store \<Rightarrow> error + (message \<times> store)" where
  "delete_product_try i st =
     (case get_or_404 st i of Inl e \<Rightarrow> Inl e | Inr p \<Rightarrow>
      let product_name = name p in
      if list_ex (\<lambda>s. product_id s = p_id p) (sales st) then Inl IntegrityError
      else Inr (ProductDeleted product_name,
                st\<lparr>products := filter (\<lambda>r. p_id r \<noteq> p_id p) (products st)\<rparr>))"

definition delete_product :: "int \<Rightarrow> store \<Rightarrow> response \<times> store" where
  "delete_product i st =
     (case delete_product_try i st of
        Inl e \<Rightarrow> (Redirect Inventory (DeleteFailed e), st)
      | Inr (m, st') \<Rightarrow> (Redirect Inventory m, st'))"

subsection \<open>Point of sale (lines 189 to 237)\<close>

definition sale_page :: "store \<Rightarrow> product list" where
  "sale_page st = filter (\<lambda>p. 0 < stock_quantity p) (products st)"

text \<open>
  The body of the \<open>try\<close>. The early return of line 214 is a normal result that leaves
  the store alone; \<open>sale_date\<close> is not passed to \<open>Sale\<close>, so the column default
  \<open>datetime.utcnow\<close> fills it when the row is inserted.
\<close>

definition process_sale_try :: "datetime \<Rightarrow> form \<Rightarrow> store \<Rightarrow> error + (message \<times> store)" where
  "process_sale_try now f st =
     (case int_field f ''product_id'' of Inl e \<Rightarrow> Inl e | Inr pid \<Rightarrow>
      case int_field f ''quantity_sold'' of Inl e \<Rightarrow> Inl e | Inr q \<Rightarrow>
      case get_or_404 st pid of Inl e \<Rightarrow> Inl e | Inr p \<Rightarrow>
      if stock_quantity p < q then Inr (StockInsufficient (stock_quantity p), st)
      else
        let profit = (selling_price p - buying_price p) * of_int q;
            new_sale = \<lparr>s_id = next_id (map s_id (sales st)), product_id = pid,
                        quantity_sold = q, sale_date = now, profit_recorded = profit\<rparr>;
            p' = p\<lparr>stock_quantity := stock_quantity p - q\<rparr>
        in Inr (SaleRecorded q (name p) profit,
                st\<lparr>products := update_product p' (products st),
                   sales := sales st @ [new_sale]\<rparr>))"

definition process_sale :: "datetime \<Rightarrow> form \<Rightarrow> store \<Rightarrow> response \<times> store" where
  "process_sale now f st =
     (case process_sale_try now f st of
        Inl e \<Rightarrow> (Redirect SalePage (SaleFailed e), st)
      | Inr (m, st') \<Rightarrow> (Redirect SalePage m, st'))"

subsection \<open>The JSON endpoint (lines 244 to 257)\<close>



subsection \<open>Requests that write, and runs of them\<close>

datatype request =
    AddProduct form
  | EditProduct int form
  | DeleteProduct int
  | ProcessSale datetime form

fun handle :: "request \<Rightarrow> store \<Rightarrow> response \<times> store" where
  "handle (AddProduct f) st = add_product f st"
| "handle (EditProduct i f) st = edit_product i f st"
| "handle (DeleteProduct i) st = delete_product i st"
| "handle (ProcessSale now f) st = process_sale now f st"

fun run :: "request list \<Rightarrow> store \<Rightarrow> store" where
  "run [] st = st"
| "run (r # rs) st = run rs (snd (handle r st))"

subsection \<open>A small shop, used to run the handlers on concrete requests\<close>

definition pen :: product where
  "pen = \<lparr>p_id = 1, name = ''pen'', stock_quantity = 5, buying_price = 2, selling_price = 3\<rparr>"
definition ink :: product where
  "ink = \<lparr>p_id = 2, name = ''ink'', stock_quantity = 0, buying_price = 1, selling_price = 4\<rparr>"
definition shop :: store where
  "shop = \<lparr>products = [pen, ink], sales = []\<rparr>"
definition sale_form :: "string \<Rightarrow> string \<Rightarrow> form" where
  "sale_form a b = [''product_id'' \<mapsto> a, ''quantity_sold'' \<mapsto> b]"

text \<open>The shop after two pens were sold at time 1000.\<close>

definition sold_shop :: store where
  "sold_shop = snd (process_sale 1000 (sale_form ''1'' ''2'') shop)"

text \<open>A second sale, one unit, more than seven days after the first.\<close>

definition later_shop :: store where
  "later_shop = snd (process_sale 700000000000 (sale_form ''1'' ''1'') sold_shop)"

definition reprice_form :: form where
  "reprice_form = [''name'' \<mapsto> ''pen'', ''stock_quantity'' \<mapsto> ''3'',
     ''buying_price'' \<mapsto> ''2'', ''selling_price'' \<mapsto> ''4.5'']"

subsection \<open>Notions used to state the reporting and integrity properties\<close>

text \<open>
  The unit selling price that the store holds now for the product of a sale (0 when
  the product is not in the table, a case the dashboard does not survive).
\<close>

definition current_price :: "store \<Rightarrow> sale \<Rightarrow> real" where
  "current_price st s =
     (case query_get st (product_id s) of None \<Rightarrow> 0 | Some p \<Rightarrow> selling_price p)"

text \<open>
  The window as the specification words it: the half-open interval from seven days
  before \<open>now\<close>, included, to \<open>now\<close>, excluded.
\<close>

definition trailing_week_spec :: "datetime \<Rightarrow> store \<Rightarrow> sale list" where
  "trailing_week_spec now st =
     filter (\<lambda>s. now - timedelta_days 7 \<le> sale_date s \<and> sale_date s < now) (sales st)"

text \<open>Every sale refers to a product of the table.\<close>

definition foreign_keys :: "store \<Rightarrow> bool" where
  "foreign_keys st = list_all (\<lambda>s. query_get st (product_id s) \<noteq> None) (sales st)"

section \<open>Properties\<close>

subsection \<open>Lookups and the three outcomes of a sale\<close>

lemmas parse_defs = py_int_def py_float_def strip_def is_space_def int_literal_def
  float_literal_def digit_of_def int_field_def int_field_default0_def float_field_default0_def

lemma query_get_SomeD: "query_get st i = Some p \<Longrightarrow> p_id p = i \<and> p \<in> set (products st)"
  by (auto simp: query_get_def find_Some_iff)


lemma find_update_product:
  "find (\<lambda>p. p_id p = i) (update_product p' ps) =
     (case find (\<lambda>p. p_id p = i) ps of None \<Rightarrow> None
      | Some p \<Rightarrow> Some (if i = p_id p' then p' else p))"
  by (induction ps) (auto simp: update_product_def)

lemma query_get_update:
  "query_get (st\<lparr>products := update_product p' (products st)\<rparr>) i =
     (case query_get st i of None \<Rightarrow> None
      | Some p \<Rightarrow> Some (if i = p_id p' then p' else p))"
  by (simp add: query_get_def find_update_product)

lemma query_get_sales_upd [simp]:
  "query_get (st\<lparr>sales := ss\<rparr>) i = query_get st i"
  by (simp add: query_get_def)

lemma length_update_product [simp]: "length (update_product p' ps) = length ps"
  by (simp add: update_product_def)


lemma process_sale_accept:
  assumes "int_field f ''product_id'' = Inr i" "int_field f ''quantity_sold'' = Inr q"
    and "query_get st i = Some P" "q \<le> stock_quantity P"
  shows "process_sale now f st =
     (Redirect SalePage (SaleRecorded q (name P) ((selling_price P - buying_price P) * of_int q)),
      st\<lparr>products := update_product (P\<lparr>stock_quantity := stock_quantity P - q\<rparr>) (products st),
         sales := sales st @
           [\<lparr>s_id = next_id (map s_id (sales st)), product_id = i, quantity_sold = q,
             sale_date = now,
             profit_recorded = (selling_price P - buying_price P) * of_int q\<rparr>]\<rparr>)"
  using assms by (simp add: process_sale_def process_sale_try_def get_or_404_def Let_def)

lemma process_sale_short:
  assumes "int_field f ''product_id'' = Inr i" "int_field f ''quantity_sold'' = Inr q"
    and "query_get st i = Some P" "stock_quantity P < q"
  shows "process_sale now f st = (Redirect SalePage (StockInsufficient (stock_quantity P)), st)"
  using assms by (simp add: process_sale_def process_sale_try_def get_or_404_def)

lemma process_sale_raise:
  assumes "int_field f ''product_id'' = Inl e
     \<or> (\<exists>i. int_field f ''product_id'' = Inr i \<and> int_field f ''quantity_sold'' = Inl e)
     \<or> (\<exists>i q. int_field f ''product_id'' = Inr i \<and> int_field f ''quantity_sold'' = Inr q
           \<and> query_get st i = None \<and> e = NotFound)"
  shows "process_sale now f st = (Redirect SalePage (SaleFailed e), st)"
  using assms by (auto simp: process_sale_def process_sale_try_def get_or_404_def)

text \<open>Every call of \<open>process_sale\<close> ends in one of three ways.\<close>

lemma process_sale_cases:
  obtains (raise) e where "process_sale now f st = (Redirect SalePage (SaleFailed e), st)"
  | (short) i q P where "int_field f ''product_id'' = Inr i" "int_field f ''quantity_sold'' = Inr q"
      "query_get st i = Some P" "stock_quantity P < q"
      "process_sale now f st = (Redirect SalePage (StockInsufficient (stock_quantity P)), st)"
  | (accept) i q P where "int_field f ''product_id'' = Inr i" "int_field f ''quantity_sold'' = Inr q"
      "query_get st i = Some P" "q \<le> stock_quantity P"
      "process_sale now f st =
     (Redirect SalePage (SaleRecorded q (name P) ((selling_price P - buying_price P) * of_int q)),
      st\<lparr>products := update_product (P\<lparr>stock_quantity := stock_quantity P - q\<rparr>) (products st),
         sales := sales st @
           [\<lparr>s_id = next_id (map s_id (sales st)), product_id = i, quantity_sold = q,
             sale_date = now,
             profit_recorded = (selling_price P - buying_price P) * of_int q\<rparr>]\<rparr>)"
proof (cases "int_field f ''product_id''")
  case (Inl e)
  then show ?thesis using raise process_sale_raise by blast
next
  case i: (Inr i)
  show ?thesis
  proof (cases "int_field f ''quantity_sold''")
    case (Inl e)
    then show ?thesis using i raise process_sale_raise by blast
  next
    case q: (Inr q)
    show ?thesis
    proof (cases "query_get st i")
      case None
      then show ?thesis using i q raise process_sale_raise by blast
    next
      case (Some P)
      show ?thesis
      proof (cases "stock_quantity P < q")
        case True
        then show ?thesis using i q Some short process_sale_short by blast
      next
        case False
        then have "q \<le> stock_quantity P" by simp
        then show ?thesis using i q Some accept process_sale_accept by blast
      qed
    qed
  qed
qed

subsection \<open>Recorded sales are only ever appended to\<close>

lemma add_product_sales: "sales (snd (add_product f st)) = sales st"
  by (auto simp: add_product_def add_product_try_def Let_def split: sum.splits option.splits)

lemma edit_product_sales: "sales (snd (edit_product i f st)) = sales st"
  by (auto simp: edit_product_def edit_product_try_def Let_def split: sum.splits option.splits)

lemma delete_product_sales: "sales (snd (delete_product i st)) = sales st"
  by (auto simp: delete_product_def delete_product_try_def Let_def split: sum.splits if_splits)

lemma process_sale_sales: "\<exists>new. sales (snd (process_sale now f st)) = sales st @ new"
  by (cases rule: process_sale_cases [of now f st]) auto

lemma handle_sales: "\<exists>new. sales (snd (handle r st)) = sales st @ new"
  by (cases r) (simp_all add: add_product_sales edit_product_sales delete_product_sales
      process_sale_sales)

lemma run_sales: "\<exists>new. sales (run rs st) = sales st @ new"
proof (induction rs arbitrary: st)
  case Nil
  then show ?case by simp
next
  case (Cons r rs)
  obtain n1 where 1: "sales (snd (handle r st)) = sales st @ n1"
    using handle_sales by blast
  obtain n2 where 2: "sales (run rs (snd (handle r st))) = sales (snd (handle r st)) @ n2"
    using Cons.IH by blast
  show ?case using 1 2 by simp
qed

subsection \<open>Primary keys and deletion\<close>

lemma fold_max_ge: "a \<le> fold max ids (a::int)"
  by (induction ids arbitrary: a) (auto intro: order_trans [OF max.cobounded2])

lemma fold_max_mem: "x \<in> set ids \<Longrightarrow> x \<le> fold max ids (a::int)"
proof (induction ids arbitrary: a)
  case Nil
  then show ?case by simp
next
  case (Cons y ys)
  show ?case
  proof (cases "x = y")
    case True
    have "y \<le> max y a" by simp
    also have "\<dots> \<le> fold max ys (max y a)" by (rule fold_max_ge)
    finally show ?thesis using True by simp
  next
    case False
    then show ?thesis using Cons by simp
  qed
qed

lemma next_id_fresh: "next_id ids \<notin> set ids"
  using fold_max_mem [of "next_id ids" ids 0] by (auto simp: next_id_def)

lemma map_p_id_update_product:
  "map p_id (update_product p' ps) = map p_id ps"
  by (induction ps) (auto simp: update_product_def)



lemma find_filter_other:
  "find (\<lambda>p. p_id p = j) (filter (\<lambda>r. p_id r \<noteq> i) ps) =
     (if j = i then None else find (\<lambda>p. p_id p = j) ps)"
  by (induction ps) auto

lemma delete_product_ok:
  assumes "query_get st i = Some P" "\<not> (\<exists>s\<in>set (sales st). product_id s = i)"
  shows "delete_product i st =
     (Redirect Inventory (ProductDeleted (name P)),
      st\<lparr>products := filter (\<lambda>r. p_id r \<noteq> i) (products st)\<rparr>)"
proof -
  have "p_id P = i" using assms(1) query_get_SomeD by blast
  then show ?thesis
    using assms
    by (simp add: delete_product_def delete_product_try_def get_or_404_def list_ex_iff)
qed

lemma delete_product_refused:
  assumes "query_get st i = Some P" "\<exists>s\<in>set (sales st). product_id s = i"
  shows "delete_product i st = (Redirect Inventory (DeleteFailed IntegrityError), st)"
proof -
  have "p_id P = i" using assms(1) query_get_SomeD by blast
  then show ?thesis
    using assms
    by (simp add: delete_product_def delete_product_try_def get_or_404_def list_ex_iff)
qed

text \<open>
  Keys stay distinct under every handler, so they are distinct in every store reached
  from the empty one.
\<close>

lemma primary_keys_handle:
  assumes "distinct (map p_id (products st))"
  shows "distinct (map p_id (products (snd (handle r st))))"
proof (cases r)
  case (AddProduct f)
  then show ?thesis using assms next_id_fresh [of "map p_id (products st)"]
    by (auto simp: add_product_def add_product_try_def split: sum.splits option.splits)
next
  case (EditProduct i f)
  then show ?thesis using assms
    by (auto simp: edit_product_def edit_product_try_def map_p_id_update_product
        split: sum.splits option.splits)
next
  case (DeleteProduct i)
  then show ?thesis using assms
    by (auto simp: delete_product_def delete_product_try_def distinct_map_filter
        split: sum.splits if_splits)
next
  case (ProcessSale now f)
  show ?thesis
    by (cases rule: process_sale_cases [of now f st])
      (simp_all add: ProcessSale assms map_p_id_update_product)
qed

lemma primary_keys_reachable: "distinct (map p_id (products (run rs \<lparr>products = [], sales = []\<rparr>)))"
proof -
  have "distinct (map p_id (products st)) \<Longrightarrow> distinct (map p_id (products (run rs st)))" for st
    by (induction rs arbitrary: st) (simp_all add: primary_keys_handle)
  then show ?thesis by simp
qed

subsection \<open>The dashboard's sums\<close>

lemma foldl_plus_sum_list: "foldl (+) a xs = a + sum_list (xs :: real list)"
  by (induction xs arbitrary: a) auto

lemma revenue_loop_total:
  "\<forall>s\<in>set ws. query_get st (product_id s) \<noteq> None \<Longrightarrow>
     revenue_loop st acc ws
       = Inr (acc + sum_list (map (\<lambda>s. current_price st s * of_int (quantity_sold s)) ws))"
  by (induction ws arbitrary: acc) (auto simp: current_price_def)

lemma revenue_loop_missing:
  "\<exists>s\<in>set ws. query_get st (product_id s) = None \<Longrightarrow> revenue_loop st acc ws = Inl AttributeError"
  by (induction ws arbitrary: acc) (auto split: option.splits)

lemma dashboard_total:
  assumes "\<forall>s\<in>set (weekly_sales now st). query_get st (product_id s) \<noteq> None"
  shows "dashboard now st =
     Inr \<lparr>weekly_revenue =
            sum_list (map (\<lambda>s. current_price st s * of_int (quantity_sold s))
                        (weekly_sales now st)),
          weekly_profit = sum_list (map profit_recorded (weekly_sales now st)),
          recent_sales = take 5 (sort_key (\<lambda>s. - sale_date s) (sales st))\<rparr>"
  by (simp add: dashboard_def revenue_loop_total [OF assms] foldl_plus_sum_list)

lemma weekly_sales_iff:
  "s \<in> set (weekly_sales now st) \<longleftrightarrow> s \<in> set (sales st) \<and> now - timedelta_days 7 \<le> sale_date s"
  by (auto simp: weekly_sales_def)

lemma edit_product_outcome:
  assumes "query_get st i = Some P"
  shows "(\<exists>e. edit_product i f st = (Redirect Inventory (EditFailed e), st))
       \<or> (\<exists>n sq bp sp. edit_product i f st =
             (Redirect Inventory (ProductEdited n),
              st\<lparr>products := update_product
                 (P\<lparr>name := n, stock_quantity := sq, buying_price := bp, selling_price := sp\<rparr>)
                 (products st)\<rparr>))"
  using assms
  by (auto simp: edit_product_def edit_product_try_def get_or_404_def
      split: sum.split option.split)

lemma revenue_shift:
  assumes "query_get st i = Some P" "p_id P' = i"
    and "\<forall>s\<in>set ws. query_get st (product_id s) \<noteq> None"
  shows "sum_list (map (\<lambda>s. current_price (st\<lparr>products := update_product P' (products st)\<rparr>) s
                          * of_int (quantity_sold s)) ws)
       = sum_list (map (\<lambda>s. current_price st s * of_int (quantity_sold s)) ws)
         + (selling_price P' - selling_price P)
           * of_int (sum_list (map quantity_sold (filter (\<lambda>s. product_id s = i) ws)))"
  using assms(3)
proof (induction ws)
  case Nil
  then show ?case by simp
next
  case (Cons s ws)
  then obtain p where p: "query_get st (product_id s) = Some p" by auto
  have "current_price (st\<lparr>products := update_product P' (products st)\<rparr>) s
          = (if product_id s = i then selling_price P' else current_price st s)"
    by (simp add: current_price_def query_get_update p assms(2))
  moreover have "product_id s = i \<Longrightarrow> current_price st s = selling_price P"
    by (simp add: current_price_def assms(1))
  ultimately show ?case using Cons by (simp add: algebra_simps)
qed

lemma sold_shop_eq:
  "sold_shop = \<lparr>products = [pen\<lparr>stock_quantity := 3\<rparr>, ink],
       sales = [\<lparr>s_id = 1, product_id = 1, quantity_sold = 2, sale_date = 1000,
                 profit_recorded = 2\<rparr>]\<rparr>"
  by (simp add: sold_shop_def process_sale_def process_sale_try_def get_or_404_def query_get_def
        update_product_def next_id_def sale_form_def parse_defs shop_def pen_def ink_def)

lemma later_shop_eq:
  "later_shop = \<lparr>products = [pen\<lparr>stock_quantity := 2\<rparr>, ink],
       sales = [\<lparr>s_id = 1, product_id = 1, quantity_sold = 2, sale_date = 1000,
                 profit_recorded = 2\<rparr>,
                \<lparr>s_id = 2, product_id = 1, quantity_sold = 1, sale_date = 700000000000,
                 profit_recorded = 1\<rparr>]\<rparr>"
  by (simp add: later_shop_def sold_shop_eq process_sale_def process_sale_try_def get_or_404_def
      query_get_def update_product_def next_id_def sale_form_def parse_defs pen_def ink_def)

subsection \<open>Every sale keeps its product\<close>

text \<open>
  No handler breaks the reference from a sale to its product, so in every store reached
  from the empty one the dashboard finds the product of each sale it reports on.
\<close>

lemma find_append_products:
  "find Q (xs @ ys) = (case find Q xs of None \<Rightarrow> find Q ys | Some x \<Rightarrow> Some x)"
  by (induction xs) auto

lemma query_get_append:
  "query_get (st\<lparr>products := products st @ [p]\<rparr>) j
     = (case query_get st j of Some q \<Rightarrow> Some q | None \<Rightarrow> if p_id p = j then Some p else None)"
  by (simp add: query_get_def find_append_products split: option.splits)

lemma foreign_keys_handle: "foreign_keys st \<Longrightarrow> foreign_keys (snd (handle r st))"
proof (cases r)
  case (AddProduct f)
  assume "foreign_keys st"
  then show ?thesis
    by (auto simp: AddProduct foreign_keys_def list_all_iff add_product_def add_product_try_def
        query_get_append split: sum.splits option.splits)
next
  case (EditProduct i f)
  assume "foreign_keys st"
  then show ?thesis
    by (auto simp: EditProduct foreign_keys_def list_all_iff edit_product_def edit_product_try_def
        query_get_update split: sum.splits option.splits)
next
  case (DeleteProduct i)
  assume fk: "foreign_keys st"
  show ?thesis
  proof (cases "query_get st i")
    case None
    then show ?thesis using fk
      by (simp add: DeleteProduct delete_product_def delete_product_try_def get_or_404_def)
  next
    case (Some P)
    show ?thesis
    proof (cases "\<exists>s\<in>set (sales st). product_id s = i")
      case True
      then show ?thesis using fk delete_product_refused [OF Some] by (simp add: DeleteProduct)
    next
      case False
      then show ?thesis using fk delete_product_ok [OF Some False]
        by (auto simp: DeleteProduct foreign_keys_def list_all_iff query_get_def find_filter_other)
    qed
  qed
next
  case (ProcessSale now f)
  assume fk: "foreign_keys st"
  show ?thesis
  proof (cases rule: process_sale_cases [of now f st])
    case (raise e)
    then show ?thesis using fk by (simp add: ProcessSale)
  next
    case (short i q P)
    then show ?thesis using fk by (simp add: ProcessSale)
  next
    case (accept i q P)
    have "p_id P = i" using accept(3) query_get_SomeD by blast
    then show ?thesis using fk accept
      by (auto simp: ProcessSale foreign_keys_def list_all_iff query_get_update
          split: option.splits)
  qed
qed

lemma foreign_keys_run: "foreign_keys st \<Longrightarrow> foreign_keys (run rs st)"
  by (induction rs arbitrary: st) (simp_all add: foreign_keys_handle)

lemma foreign_keys_reachable: "foreign_keys (run rs \<lparr>products = [], sales = []\<rparr>)"
  by (rule foreign_keys_run) (simp add: foreign_keys_def)

lemma foreign_keys_dashboard:
  "foreign_keys st \<Longrightarrow> \<forall>s\<in>set (weekly_sales now st). query_get st (product_id s) \<noteq> None"
  by (simp add: foreign_keys_def list_all_iff weekly_sales_def)

subsection \<open>Sale processing\<close>



text \<open>
  C2. Every failing call of \<open>process_sale\<close> leaves the store as it was and flashes a
  message of category danger: a missing field, a field that \<open>int\<close> rejects and a key
  with no product end in the \<open>except\<close> clause, and a quantity above the stock ends in
  the message that carries the available stock. Whatever the request, the store is either
  untouched, or the stock of one product is lowered and the sale for that same quantity
  is appended: never one without the other.
\<close>

theorem process_sale_rejected:
  "(f ''product_id'' = None \<or> f ''quantity_sold'' = None
      \<or> (\<exists>a. f ''product_id'' = Some a \<and> py_int a = Inl ValueError)
      \<or> (\<exists>b. f ''quantity_sold'' = Some b \<and> py_int b = Inl ValueError)
      \<or> (\<exists>i. int_field f ''product_id'' = Inr i \<and> query_get st i = None)
    \<longrightarrow> (\<exists>e. process_sale now f st = (Redirect SalePage (SaleFailed e), st)))
   \<and> (\<forall>i q P. int_field f ''product_id'' = Inr i \<and> int_field f ''quantity_sold'' = Inr q
          \<and> query_get st i = Some P \<and> stock_quantity P < q
        \<longrightarrow> process_sale now f st
              = (Redirect SalePage (StockInsufficient (stock_quantity P)), st))
   \<and> ((snd (process_sale now f st) = st
        \<and> (\<exists>m. fst (process_sale now f st) = Redirect SalePage m \<and> category_of m = danger))
      \<or> (\<exists>P q. query_get st (p_id P) = Some P
            \<and> products (snd (process_sale now f st))
                = update_product (P\<lparr>stock_quantity := stock_quantity P - q\<rparr>) (products st)
            \<and> sales (snd (process_sale now f st)) = sales st @
                [\<lparr>s_id = next_id (map s_id (sales st)), product_id = p_id P,
                  quantity_sold = q, sale_date = now,
                  profit_recorded = (selling_price P - buying_price P) * of_int q\<rparr>]))"
proof (intro conjI impI allI)
  assume h: "f ''product_id'' = None \<or> f ''quantity_sold'' = None
      \<or> (\<exists>a. f ''product_id'' = Some a \<and> py_int a = Inl ValueError)
      \<or> (\<exists>b. f ''quantity_sold'' = Some b \<and> py_int b = Inl ValueError)
      \<or> (\<exists>i. int_field f ''product_id'' = Inr i \<and> query_get st i = None)"
  show "\<exists>e. process_sale now f st = (Redirect SalePage (SaleFailed e), st)"
  proof (cases rule: process_sale_cases [of now f st])
    case (raise e)
    then show ?thesis by blast
  next
    case (short i q P)
    with h show ?thesis by (auto simp: int_field_def split: option.splits)
  next
    case (accept i q P)
    with h show ?thesis by (auto simp: int_field_def split: option.splits)
  qed
next
  fix i q P
  assume "int_field f ''product_id'' = Inr i \<and> int_field f ''quantity_sold'' = Inr q
          \<and> query_get st i = Some P \<and> stock_quantity P < q"
  then show "process_sale now f st
              = (Redirect SalePage (StockInsufficient (stock_quantity P)), st)"
    using process_sale_short by blast
next
  show "(snd (process_sale now f st) = st
        \<and> (\<exists>m. fst (process_sale now f st) = Redirect SalePage m \<and> category_of m = danger))
      \<or> (\<exists>P q. query_get st (p_id P) = Some P
            \<and> products (snd (process_sale now f st))
                = update_product (P\<lparr>stock_quantity := stock_quantity P - q\<rparr>) (products st)
            \<and> sales (snd (process_sale now f st)) = sales st @
                [\<lparr>s_id = next_id (map s_id (sales st)), product_id = p_id P,
                  quantity_sold = q, sale_date = now,
                  profit_recorded = (selling_price P - buying_price P) * of_int q\<rparr>])"
  proof (cases rule: process_sale_cases [of now f st])
    case (raise e)
    then show ?thesis by simp
  next
    case (short i q P)
    then show ?thesis by simp
  next
    case (accept i q P)
    have "p_id P = i" using accept(3) query_get_SomeD by blast
    with accept show ?thesis by auto
  qed
qed

text \<open>
  The theorem at a request without \<open>quantity_sold\<close>, at a quantity that is not a
  number, at a key that no product has, and at 9 units of a product that has 5.
\<close>

theorem process_sale_rejected_witness:
  "[''product_id'' \<mapsto> ''1''] ''quantity_sold'' = None
   \<and> snd (process_sale 1000 [''product_id'' \<mapsto> ''1''] shop) = shop
   \<and> sale_form ''1'' ''x'' ''quantity_sold'' = Some ''x'' \<and> py_int ''x'' = Inl ValueError
   \<and> snd (process_sale 1000 (sale_form ''1'' ''x'') shop) = shop
   \<and> int_field (sale_form ''7'' ''1'') ''product_id'' = Inr 7 \<and> query_get shop 7 = None
   \<and> snd (process_sale 1000 (sale_form ''7'' ''1'') shop) = shop
   \<and> int_field (sale_form ''1'' ''9'') ''product_id'' = Inr 1
   \<and> int_field (sale_form ''1'' ''9'') ''quantity_sold'' = Inr 9
   \<and> query_get shop 1 = Some pen \<and> stock_quantity pen < 9
   \<and> process_sale 1000 (sale_form ''1'' ''9'') shop
        = (Redirect SalePage (StockInsufficient 5), shop)"
proof -
  have m: "[''product_id'' \<mapsto> ''1''] ''quantity_sold'' = None" by simp
  have x: "sale_form ''1'' ''x'' ''quantity_sold'' = Some ''x''" "py_int ''x'' = Inl ValueError"
    by (simp_all add: sale_form_def parse_defs)
  have n: "int_field (sale_form ''7'' ''1'') ''product_id'' = Inr 7" "query_get shop 7 = None"
    by (simp_all add: sale_form_def parse_defs query_get_def shop_def pen_def ink_def)
  have s: "int_field (sale_form ''1'' ''9'') ''product_id'' = Inr 1"
    "int_field (sale_form ''1'' ''9'') ''quantity_sold'' = Inr 9"
    "query_get shop 1 = Some pen" "stock_quantity pen < 9"
    by (simp_all add: sale_form_def parse_defs query_get_def shop_def pen_def)
  have five: "stock_quantity pen = 5" by (simp add: pen_def)
  have 1: "snd (process_sale 1000 [''product_id'' \<mapsto> ''1''] shop) = shop"
    using process_sale_rejected [of "[''product_id'' \<mapsto> ''1'']" shop 1000] m by auto
  have 2: "snd (process_sale 1000 (sale_form ''1'' ''x'') shop) = shop"
    using process_sale_rejected [of "sale_form ''1'' ''x''" shop 1000] x by auto
  have 3: "snd (process_sale 1000 (sale_form ''7'' ''1'') shop) = shop"
    using process_sale_rejected [of "sale_form ''7'' ''1''" shop 1000] n by auto
  have 4: "process_sale 1000 (sale_form ''1'' ''9'') shop
        = (Redirect SalePage (StockInsufficient 5), shop)"
    using process_sale_rejected [of "sale_form ''1'' ''9''" shop 1000] s five by auto
  show ?thesis using m x n s 1 2 3 4 by simp
qed

text \<open>
  C3. A product whose stock is not negative before a call of \<open>process_sale\<close> is
  still in the table afterwards and its stock is not negative, whether the sale was
  accepted or not.
\<close>

theorem process_sale_stock_nonneg:
  assumes "query_get st i = Some P" and "0 \<le> stock_quantity P"
  shows "\<exists>P'. query_get (snd (process_sale now f st)) i = Some P' \<and> 0 \<le> stock_quantity P'"
proof (cases rule: process_sale_cases [of now f st])
  case (raise e)
  then show ?thesis using assms by simp
next
  case (short j q Q)
  then show ?thesis using assms by simp
next
  case (accept j q Q)
  then show ?thesis using assms by (auto simp: query_get_update)
qed

theorem process_sale_stock_nonneg_witness:
  "query_get shop 1 = Some pen \<and> 0 \<le> stock_quantity pen
   \<and> (\<exists>P'. query_get (snd (process_sale 1000 (sale_form ''1'' ''5'') shop)) 1 = Some P'
          \<and> 0 \<le> stock_quantity P')"
proof -
  have h: "query_get shop 1 = Some pen" "0 \<le> stock_quantity pen"
    by (simp_all add: query_get_def shop_def pen_def)
  from process_sale_stock_nonneg [OF h, of 1000 "sale_form ''1'' ''5''"]
  show ?thesis using h by simp
qed




subsection \<open>Catalogue\<close>

text \<open>
  C4. Editing a product leaves the table of sales as it is, so the profit recorded on
  every sale is unchanged; and after any run of writing requests (add, edit, delete,
  sale) the sales there were at the start are the first rows of the table, unchanged,
  with the profit they were recorded with.
\<close>

theorem profit_recorded_frozen:
  "sales (snd (edit_product i f st)) = sales st
   \<and> take (length (sales st)) (sales (run rs st)) = sales st
   \<and> map profit_recorded (take (length (sales st)) (sales (run rs st)))
       = map profit_recorded (sales st)"
proof -
  obtain new where "sales (run rs st) = sales st @ new" using run_sales by blast
  then show ?thesis by (simp add: edit_product_sales)
qed

text \<open>
  C6, as the claim states it, fails: once two units of product 1 are sold, deleting
  product 1 is refused with an IntegrityError, the store is the one before the request
  and the product is still in the inventory listing.
\<close>

theorem delete_product_with_sales_counterexample:
  "query_get (snd (process_sale 1000 (sale_form ''1'' ''2'') shop)) 1
     = Some (pen\<lparr>stock_quantity := 3\<rparr>)
   \<and> delete_product 1 (snd (process_sale 1000 (sale_form ''1'' ''2'') shop))
     = (Redirect Inventory (DeleteFailed IntegrityError),
        snd (process_sale 1000 (sale_form ''1'' ''2'') shop))
   \<and> inventory (snd (delete_product 1 (snd (process_sale 1000 (sale_form ''1'' ''2'') shop))))
     = [pen\<lparr>stock_quantity := 3\<rparr>, ink]"
  by (simp add: delete_product_def delete_product_try_def inventory_def
      process_sale_def process_sale_try_def get_or_404_def query_get_def
      update_product_def next_id_def sale_form_def parse_defs shop_def pen_def ink_def)

text \<open>
  C6, amended. Deleting an existing product that no sale refers to removes it: it is
  no longer found by its key nor listed by \<open>inventory\<close>, and the other products are
  as before. Deleting a product that some sale refers to is refused: the response flashes
  the IntegrityError and the store is unchanged.
\<close>

theorem delete_product_unreferenced:
  assumes "query_get st i = Some P"
  shows "(\<not> (\<exists>s\<in>set (sales st). product_id s = i) \<longrightarrow>
            fst (delete_product i st) = Redirect Inventory (ProductDeleted (name P))
          \<and> query_get (snd (delete_product i st)) i = None
          \<and> P \<notin> set (inventory (snd (delete_product i st)))
          \<and> i \<notin> p_id ` set (inventory (snd (delete_product i st)))
          \<and> (\<forall>j. j \<noteq> i \<longrightarrow> query_get (snd (delete_product i st)) j = query_get st j))
       \<and> ((\<exists>s\<in>set (sales st). product_id s = i) \<longrightarrow>
            delete_product i st = (Redirect Inventory (DeleteFailed IntegrityError), st))"
proof (intro conjI impI)
  assume n: "\<not> (\<exists>s\<in>set (sales st). product_id s = i)"
  have i: "p_id P = i" using assms query_get_SomeD by blast
  note eq = delete_product_ok [OF assms n]
  show "fst (delete_product i st) = Redirect Inventory (ProductDeleted (name P))"
    by (simp add: eq)
  show "query_get (snd (delete_product i st)) i = None"
    by (simp add: eq query_get_def find_filter_other)
  show "P \<notin> set (inventory (snd (delete_product i st)))"
    by (simp add: eq inventory_def i)
  show "i \<notin> p_id ` set (inventory (snd (delete_product i st)))"
    by (auto simp: eq inventory_def)
  show "\<forall>j. j \<noteq> i \<longrightarrow> query_get (snd (delete_product i st)) j = query_get st j"
    by (simp add: eq query_get_def find_filter_other)
next
  assume "\<exists>s\<in>set (sales st). product_id s = i"
  then show "delete_product i st = (Redirect Inventory (DeleteFailed IntegrityError), st)"
    using delete_product_refused [OF assms] by simp
qed

theorem delete_product_unreferenced_witness:
  "query_get shop 2 = Some ink \<and> \<not> (\<exists>s\<in>set (sales shop). product_id s = 2)
   \<and> ink \<notin> set (inventory (snd (delete_product 2 shop)))
   \<and> query_get (snd (delete_product 2 shop)) 2 = None
   \<and> query_get (snd (delete_product 2 shop)) 1 = Some pen
   \<and> query_get (snd (process_sale 1000 (sale_form ''1'' ''2'') shop)) 1
        = Some (pen\<lparr>stock_quantity := 3\<rparr>)
   \<and> (\<exists>s\<in>set (sales (snd (process_sale 1000 (sale_form ''1'' ''2'') shop))). product_id s = 1)
   \<and> snd (delete_product 1 (snd (process_sale 1000 (sale_form ''1'' ''2'') shop)))
        = snd (process_sale 1000 (sale_form ''1'' ''2'') shop)"
proof -
  have h: "query_get shop 2 = Some ink" "\<not> (\<exists>s\<in>set (sales shop). product_id s = 2)"
    "query_get shop 1 = Some pen"
    by (simp_all add: query_get_def shop_def pen_def ink_def)
  have s: "process_sale 1000 (sale_form ''1'' ''2'') shop =
     (Redirect SalePage (SaleRecorded 2 ''pen'' 2),
      \<lparr>products = [pen\<lparr>stock_quantity := 3\<rparr>, ink],
       sales = [\<lparr>s_id = 1, product_id = 1, quantity_sold = 2, sale_date = 1000,
                 profit_recorded = 2\<rparr>]\<rparr>)"
    by (simp add: process_sale_def process_sale_try_def get_or_404_def query_get_def
        update_product_def next_id_def sale_form_def parse_defs shop_def pen_def ink_def)
  have k: "query_get (snd (process_sale 1000 (sale_form ''1'' ''2'') shop)) 1
        = Some (pen\<lparr>stock_quantity := 3\<rparr>)"
    "\<exists>s\<in>set (sales (snd (process_sale 1000 (sale_form ''1'' ''2'') shop))). product_id s = 1"
    by (simp_all add: s query_get_def pen_def)
  have 1: "ink \<notin> set (inventory (snd (delete_product 2 shop)))"
    "query_get (snd (delete_product 2 shop)) 2 = None"
    "query_get (snd (delete_product 2 shop)) 1 = Some pen"
    using delete_product_unreferenced [OF h(1)] h by auto
  have 2: "snd (delete_product 1 (snd (process_sale 1000 (sale_form ''1'' ''2'') shop)))
        = snd (process_sale 1000 (sale_form ''1'' ''2'') shop)"
    using delete_product_unreferenced [OF k(1)] k(2) by simp
  show ?thesis using h k 1 2 by simp
qed





subsection \<open>Reporting\<close>

text \<open>
  C5, as the claim states it, fails: the filter of line 82 has no upper bound. A sale
  recorded at the very clock reading at which the dashboard is computed lies outside the
  half-open window of the claim, which then holds no sale at all, yet the dashboard
  reports its revenue 6 and its profit 2.
\<close>

theorem dashboard_window_counterexample:
  "dashboard 1000 sold_shop =
     Inr \<lparr>weekly_revenue = 6, weekly_profit = 2,
          recent_sales = [\<lparr>s_id = 1, product_id = 1, quantity_sold = 2, sale_date = 1000,
                           profit_recorded = 2\<rparr>]\<rparr>
   \<and> trailing_week_spec 1000 sold_shop = []
   \<and> sum_list (map profit_recorded (trailing_week_spec 1000 sold_shop)) = 0
   \<and> sum_list (map (\<lambda>s. current_price sold_shop s * of_int (quantity_sold s))
        (trailing_week_spec 1000 sold_shop)) = 0"
  by (simp add: sold_shop_eq dashboard_def weekly_sales_def trailing_week_spec_def
      timedelta_days_def query_get_def pen_def ink_def)

text \<open>
  C5, amended. The weekly figures aggregate exactly the sales dated at or after
  \<open>now\<close> minus seven days, with no upper bound: provided each of these sales still has
  its product, the dashboard returns, its weekly profit is the sum of the recorded
  profits of these sales and its weekly revenue is the sum over them of the product's
  unit selling price times the quantity sold. No sale dated earlier contributes.
\<close>

theorem dashboard_weekly_figures:
  assumes "\<forall>s\<in>set (sales st). now - timedelta_days 7 \<le> sale_date s
             \<longrightarrow> query_get st (product_id s) \<noteq> None"
  shows "\<exists>v. dashboard now st = Inr v
       \<and> weekly_profit v
           = sum_list (map profit_recorded
               (filter (\<lambda>s. now - timedelta_days 7 \<le> sale_date s) (sales st)))
       \<and> weekly_revenue v
           = sum_list (map (\<lambda>s. current_price st s * of_int (quantity_sold s))
               (filter (\<lambda>s. now - timedelta_days 7 \<le> sale_date s) (sales st)))"
proof -
  have "\<forall>s\<in>set (weekly_sales now st). query_get st (product_id s) \<noteq> None"
    using assms by (simp add: weekly_sales_iff)
  from dashboard_total [OF this] show ?thesis by (simp add: weekly_sales_def)
qed

text \<open>
  The theorem seven days and more after the first sale of the shop: only the second
  sale counts.
\<close>

theorem dashboard_weekly_figures_witness:
  "map product_id (sales later_shop) = [1, 1]
   \<and> map sale_date (sales later_shop) = [1000, 700000000000]
   \<and> query_get later_shop 1 = Some (pen\<lparr>stock_quantity := 2\<rparr>)
   \<and> (\<exists>v. dashboard 700000000000 later_shop = Inr v
          \<and> weekly_profit v = 1 \<and> weekly_revenue v = 3)"
proof -
  have c: "map product_id (sales later_shop) = [1, 1]"
    "map sale_date (sales later_shop) = [1000, 700000000000]"
    "query_get later_shop 1 = Some (pen\<lparr>stock_quantity := 2\<rparr>)"
    by (simp_all add: later_shop_eq query_get_def pen_def)
  have h: "\<forall>s\<in>set (sales later_shop). 700000000000 - timedelta_days 7 \<le> sale_date s
             \<longrightarrow> query_get later_shop (product_id s) \<noteq> None"
    by (simp add: later_shop_eq query_get_def pen_def)
  have e: "sum_list (map profit_recorded
             (filter (\<lambda>s. 700000000000 - timedelta_days 7 \<le> sale_date s)
                (sales later_shop))) = 1"
    "sum_list (map (\<lambda>s. current_price later_shop s * of_int (quantity_sold s))
             (filter (\<lambda>s. 700000000000 - timedelta_days 7 \<le> sale_date s)
                (sales later_shop))) = 3"
    by (simp_all add: later_shop_eq timedelta_days_def current_price_def query_get_def pen_def)
  from dashboard_weekly_figures [OF h] show ?thesis using c e by simp
qed

text \<open>
  C9. Each sale of the window contributes to the weekly revenue the selling price that
  the store holds for its product when the dashboard is computed, times the quantity
  sold. So after \<open>edit_product\<close> on product \<open>i\<close> the revenue reported for the same
  sales moves by (new price - old price) times the quantity of \<open>i\<close> sold in the
  window, while the weekly profit, summed from \<open>profit_recorded\<close>, stays the same.
\<close>

theorem weekly_revenue_follows_current_price:
  assumes ref: "\<forall>s\<in>set (weekly_sales now st). query_get st (product_id s) \<noteq> None"
    and P: "query_get st i = Some P"
  shows "\<exists>v v' P'. dashboard now st = Inr v
       \<and> dashboard now (snd (edit_product i f st)) = Inr v'
       \<and> query_get (snd (edit_product i f st)) i = Some P'
       \<and> weekly_revenue v
           = sum_list (map (\<lambda>s. current_price st s * of_int (quantity_sold s))
                         (weekly_sales now st))
       \<and> weekly_revenue v'
           = sum_list (map (\<lambda>s. current_price (snd (edit_product i f st)) s
                                  * of_int (quantity_sold s))
                         (weekly_sales now st))
       \<and> weekly_revenue v' - weekly_revenue v
           = (selling_price P' - selling_price P)
             * of_int (sum_list (map quantity_sold
                 (filter (\<lambda>s. product_id s = i) (weekly_sales now st))))
       \<and> weekly_profit v' = weekly_profit v"
proof -
  consider (failed) e where "edit_product i f st = (Redirect Inventory (EditFailed e), st)"
    | (edited) n sq bp sp where "edit_product i f st =
         (Redirect Inventory (ProductEdited n),
          st\<lparr>products := update_product
                 (P\<lparr>name := n, stock_quantity := sq, buying_price := bp, selling_price := sp\<rparr>)
                 (products st)\<rparr>)"
    using edit_product_outcome [OF P, of f] by blast
  then show ?thesis
  proof cases
  case (failed e)
  then show ?thesis using dashboard_total [OF ref] P by simp
next
  case (edited n sq bp sp)
  define P' where "P' = P\<lparr>name := n, stock_quantity := sq, buying_price := bp, selling_price := sp\<rparr>"
  define st' where "st' = st\<lparr>products := update_product P' (products st)\<rparr>"
  have st': "snd (edit_product i f st) = st'" by (simp add: edited st'_def P'_def)
  have i: "p_id P' = i" using P query_get_SomeD by (fastforce simp: P'_def)
  have ws: "weekly_sales now st' = weekly_sales now st" by (simp add: st'_def weekly_sales_def)
  have q: "\<And>j. query_get st' j
             = (case query_get st j of None \<Rightarrow> None | Some p \<Rightarrow> Some (if j = i then P' else p))"
    by (simp add: st'_def query_get_update i split: option.splits)
  have ref': "\<forall>s\<in>set (weekly_sales now st'). query_get st' (product_id s) \<noteq> None"
    using ref by (auto simp: ws q split: option.splits)
  have sales: "sales st' = sales st" by (simp add: st'_def)
  note d = dashboard_total [OF ref] and d' = dashboard_total [OF ref']
  have "query_get st' i = Some P'" by (simp add: q P)
  moreover have "sum_list (map (\<lambda>s. current_price st' s * of_int (quantity_sold s)) (weekly_sales now st))
       - sum_list (map (\<lambda>s. current_price st s * of_int (quantity_sold s)) (weekly_sales now st))
       = (selling_price P' - selling_price P)
           * of_int (sum_list (map quantity_sold (filter (\<lambda>s. product_id s = i) (weekly_sales now st))))"
    using revenue_shift [OF P i ref] by (simp add: st'_def)
  ultimately show ?thesis
    unfolding st' by (simp add: d d' ws sales)
qed
qed

text \<open>
  The theorem for the two pens sold at 3: once the price is edited to 4.5 the weekly
  revenue reads 9 instead of 6, the weekly profit 2 as before.
\<close>

theorem weekly_revenue_follows_current_price_witness:
  "map product_id (weekly_sales 5000 sold_shop) = [1]
   \<and> query_get sold_shop 1 = Some (pen\<lparr>stock_quantity := 3\<rparr>)
   \<and> (\<exists>v v'. dashboard 5000 sold_shop = Inr v
          \<and> dashboard 5000 (snd (edit_product 1 reprice_form sold_shop)) = Inr v'
          \<and> weekly_revenue v = 6 \<and> weekly_revenue v' = 9
          \<and> weekly_profit v = 2 \<and> weekly_profit v' = 2)"
proof -
  have h: "\<forall>s\<in>set (weekly_sales 5000 sold_shop). query_get sold_shop (product_id s) \<noteq> None"
    "query_get sold_shop 1 = Some (pen\<lparr>stock_quantity := 3\<rparr>)"
    by (simp_all add: sold_shop_eq weekly_sales_def timedelta_days_def query_get_def pen_def)
  have d: "dashboard 5000 sold_shop =
     Inr \<lparr>weekly_revenue = 6, weekly_profit = 2,
          recent_sales = [\<lparr>s_id = 1, product_id = 1, quantity_sold = 2, sale_date = 1000,
                           profit_recorded = 2\<rparr>]\<rparr>"
    by (simp add: sold_shop_eq dashboard_def weekly_sales_def timedelta_days_def query_get_def
        pen_def ink_def)
  have e: "query_get (snd (edit_product 1 reprice_form sold_shop)) 1
             = Some \<lparr>p_id = 1, name = ''pen'', stock_quantity = 3, buying_price = 2,
                     selling_price = 9 / 2\<rparr>"
    by (simp add: sold_shop_eq edit_product_def edit_product_try_def get_or_404_def query_get_def
        update_product_def reprice_form_def parse_defs pen_def ink_def)
  have q: "sum_list (map quantity_sold
             (filter (\<lambda>s. product_id s = 1) (weekly_sales 5000 sold_shop))) = 2"
    "selling_price (pen\<lparr>stock_quantity := 3\<rparr>) = 3"
    by (simp_all add: sold_shop_eq weekly_sales_def timedelta_days_def pen_def)
  from weekly_revenue_follows_current_price [OF h, of reprice_form]
  obtain v v' P' where
    1: "dashboard 5000 sold_shop = Inr v"
      "dashboard 5000 (snd (edit_product 1 reprice_form sold_shop)) = Inr v'"
      "query_get (snd (edit_product 1 reprice_form sold_shop)) 1 = Some P'"
    and 2: "weekly_revenue v' - weekly_revenue v
           = (selling_price P' - selling_price (pen\<lparr>stock_quantity := 3\<rparr>))
             * of_int (sum_list (map quantity_sold
                 (filter (\<lambda>s. product_id s = 1) (weekly_sales 5000 sold_shop))))"
      "weekly_profit v' = weekly_profit v"
    by blast
  have v: "weekly_revenue v = 6" "weekly_profit v = 2" using 1(1) d by auto
  have c: "map product_id (weekly_sales 5000 sold_shop) = [1]"
    by (simp add: sold_shop_eq weekly_sales_def timedelta_days_def)
  have "selling_price P' = 9 / 2" using 1(3) e by auto
  then have "weekly_revenue v' = 9" using 2(1) v q by simp
  then show ?thesis using c h(2) 1 2 v by auto
qed

end
